theory Spec2Isabelle
  imports Complex_Main
begin

section \<open>The GTFS fusion and caching pipeline of \<open>app/__init__.py\<close>\<close>

text \<open>
  The module keeps one global \<open>GTFSDataStore\<close>, refreshes it from three cached
  downloads (two GTFS-Realtime messages and a zip archive of static tables) and serves
  the fused vehicle list. The embedding below follows the module function by function.
  Python floats (clock readings, coordinates) are modelled as reals: the code only
  subtracts and compares clock readings and copies coordinates. The libraries the module
  calls (\<open>requests\<close>, \<open>zipfile\<close>, \<open>csv\<close>, the protobuf decoder and the
  builtins \<open>float\<close> and \<open>int\<close>) are fields of the \<open>world\<close> record, so every
  theorem holds for whatever they compute.
\<close>

subsection \<open>Data model\<close>

type_synonym path = string
type_synonym url = string
type_synonym bytes = string

text \<open>The Pydantic models \<open>Position\<close>, \<open>ShapePoint\<close> and \<open>VehicleData\<close>.\<close>

record position =
  latitude :: real
  longitude :: real

record shape_point =
  lat :: real
  lon :: real
  seq :: int

text \<open>
  One element of \<open>VehicleData.shape_points\<close>, declared \<open>Dict[str, float]\<close>: the
  dictionary with keys \<open>lat\<close>, \<open>lon\<close> and \<open>seq\<close>, whose integer \<open>seq\<close> Pydantic
  stores as a float.
\<close>

record point_dict =
  pt_lat :: real
  pt_lon :: real
  pt_seq :: real

record vehicle_data =
  vehicle_id :: string
  route_id :: string
  trip_id :: string
  position :: position
  delay_seconds :: "int option"
  shape_id :: "string option"
  shape_points :: "point_dict list"

text \<open>
  A row of a CSV table as \<open>load_csv_dict\<close> returns it. The function is annotated
  \<open>List[Dict[str, str]]\<close>, but \<open>csv.DictReader\<close> gives the cell \<open>None\<close> to every
  column that a short line leaves out, so a cell is an optional string: a column of the
  header is always a key of the row, and its value may be \<open>None\<close>.

  The global \<open>GTFSDataStore\<close>. Its dictionaries are annotated with string keys and
  values, but they are filled from such cells, so the keys of \<open>shapes_dict\<close> and the
  keys and values of \<open>trip_shape_map\<close> are optional strings as well.
\<close>

type_synonym cell = "string option"
type_synonym row = "string \<rightharpoonup> cell"

record store =
  shapes_dict :: "cell \<rightharpoonup> shape_point list"
  trips :: "row list"
  trip_shape_map :: "cell \<rightharpoonup> cell"
  trip_delays :: "string \<rightharpoonup> int"
  vehicle_positions :: "vehicle_data list"
  last_updated :: "real option"

text \<open>\<open>GTFSDataStore.__init__\<close>.\<close>

definition initial_store :: store where
  "initial_store =
     \<lparr>shapes_dict = Map.empty, trips = [], trip_shape_map = Map.empty,
      trip_delays = Map.empty, vehicle_positions = [], last_updated = None\<rparr>"

text \<open>
  The decoded GTFS-Realtime messages. An optional field that \<open>HasField\<close> tests is an
  option; a field the code reads without testing holds the value the decoder gives it
  (the protobuf default when the message does not set it).
\<close>

record stop_time_event =
  ev_delay :: "int option"
  ev_time :: "int option"

record stop_time_update =
  arrival :: "stop_time_event option"
  departure :: "stop_time_event option"

record trip_update =
  tu_trip_id :: string
  tu_stop_time_update :: "stop_time_update list"

record vehicle_position =
  vp_trip_id :: string
  vp_route_id :: string
  vp_vehicle_id :: string
  vp_latitude :: real
  vp_longitude :: real

record feed_entity =
  fe_trip_update :: "trip_update option"
  fe_vehicle :: "vehicle_position option"

text \<open>
  Every failure of the module is an \<open>HTTPException\<close>; one constructor per \<open>raise\<close>.
  \<open>Unexpected\<close> is the exception the outer handler of \<open>fetch_and_process_data\<close>
  makes of any other Python exception (\<open>KeyError\<close>, \<open>ValueError\<close>).
\<close>

datatype error =
    FetchFailed url
  | CsvNotFound path
  | CsvFailed path
  | FeedNotFound path
  | FeedFailed path
  | CorruptZip
  | UnzipFailed
  | Unexpected
  | NoVehicleData


subsection \<open>The world outside the process\<close>

record cached_file =
  mtime :: real
  content :: bytes

text \<open>
  What \<open>zipfile\<close> does with the bytes of an archive: it extracts all members, or raises
  \<open>BadZipFile\<close>, or raises something else; in each case the members written so far are
  listed (name and bytes).
\<close>

datatype unzip_result =
    Extracted "(string \<times> bytes) list"
  | BadZipFile "(string \<times> bytes) list"
  | ExtractFailed "(string \<times> bytes) list"

text \<open>
  \<open>clock\<close> is what \<open>time.time()\<close> returns, \<open>files\<close> the cache directory,
  \<open>http_get\<close> the body \<open>requests.get\<close> delivers for a URL (\<open>None\<close> when it or
  \<open>raise_for_status\<close> raises a \<open>RequestException\<close>), and \<open>requested\<close> the log of
  the calls of \<open>requests.get\<close>. \<open>csv_reader\<close> gives the rows of \<open>csv.DictReader\<close>
  as lists of (key, cell) pairs, \<open>None\<close> when reading raises; the key is \<open>None\<close> for
  the entry that collects the surplus cells of a long line. The clock does not
  advance inside one call; time passes between calls (\<open>advance\<close>). A file system
  that refuses a write or a removal is not modelled.
\<close>

record world =
  clock :: real
  files :: "path \<rightharpoonup> cached_file"
  http_get :: "url \<Rightarrow> bytes option"
  requested :: "url list"
  unzip :: "bytes \<Rightarrow> unzip_result"
  csv_reader :: "bytes \<Rightarrow> (string option \<times> cell) list list option"
  parse_feed :: "bytes \<Rightarrow> feed_entity list option"
  to_float :: "string \<Rightarrow> real option"
  to_int :: "string \<Rightarrow> int option"

definition advance :: "real \<Rightarrow> world \<Rightarrow> world" where
  "advance d w = w\<lparr>clock := clock w + d\<rparr>"

definition CACHE_DIR :: path where "CACHE_DIR = ''cache''"
definition GTFS_DIR :: path where "GTFS_DIR = ''cache/gtfs''"
definition VEHICLE_POSITIONS_FILE :: path where
  "VEHICLE_POSITIONS_FILE = ''cache/vehicle_positions.pb''"
definition TRIP_UPDATES_FILE :: path where
  "TRIP_UPDATES_FILE = ''cache/trip_updates.pb''"
definition GTFS_ZIP_FILE :: path where
  "GTFS_ZIP_FILE = ''cache/ZTMPoznanGTFS.zip''"

definition GTFS_ZIP_URL :: url where
  "GTFS_ZIP_URL = ''https://www.ztm.poznan.pl/pl/dla-deweloperow/getGTFSFile''"
definition VEHICLE_POSITIONS_URL :: url where
  "VEHICLE_POSITIONS_URL =
     ''https://www.ztm.poznan.pl/pl/dla-deweloperow/getGtfsRtFile?file=vehicle_positions.pb''"
definition TRIP_UPDATES_URL :: url where
  "TRIP_UPDATES_URL =
     ''https://www.ztm.poznan.pl/pl/dla-deweloperow/getGtfsRtFile?file=trip_updates.pb''"

text \<open>\<open>os.path.join(GTFS_DIR, name)\<close>.\<close>

definition gtfs_path :: "string \<Rightarrow> path" where
  "gtfs_path name = GTFS_DIR @ ''/'' @ name"

subsection \<open>\<open>fetch_file\<close>\<close>

text \<open>
  The part of \<open>fetch_file\<close> after the freshness test: the request is logged, a
  \<open>RequestException\<close> becomes the \<open>HTTPException\<close>, and otherwise the body is written
  to \<open>filepath\<close>, whose modification time is the time of writing.
\<close>

definition download :: "url \<Rightarrow> path \<Rightarrow> world \<Rightarrow> error option \<times> world" where
  "download url filepath w =
     (let w1 = w\<lparr>requested := requested w @ [url]\<rparr>
      in case http_get w url of
           None \<Rightarrow> (Some (FetchFailed url), w1)
         | Some body \<Rightarrow>
             (None, w1\<lparr>files := (files w1)(filepath \<mapsto>
                               \<lparr>mtime = clock w, content = body\<rparr>)\<rparr>))"

definition fetch_file :: "url \<Rightarrow> path \<Rightarrow> int \<Rightarrow> world \<Rightarrow> error option \<times> world" where
  "fetch_file url filepath max_age_seconds w =
     (case files w filepath of
        Some f \<Rightarrow>
          if clock w - mtime f < real_of_int max_age_seconds then (None, w)
          else download url filepath w
      | None \<Rightarrow> download url filepath w)"

subsection \<open>\<open>load_csv_dict\<close> and \<open>load_feed\<close>\<close>

text \<open>
  \<open>key.replace\<close> of the byte order mark by the empty string: strings are byte lists here, and the byte order mark
  is the three bytes EF BB BF of its UTF-8 encoding.
\<close>

fun remove_bom :: "string \<Rightarrow> string" where
  "remove_bom (a # b # c # rest) =
     (if a = CHR 0xEF \<and> b = CHR 0xBB \<and> c = CHR 0xBF then remove_bom rest
      else a # remove_bom (b # c # rest))"
| "remove_bom s = s"

text \<open>
  The dictionary comprehension that builds \<open>cleaned_row\<close>: a later key wins, and
  \<open>key.replace\<close> on the key \<open>None\<close> of a long line raises (the result is \<open>None\<close>).
  The loop over the rows stops at the first row that raises.
\<close>

fun clean_row :: "(string option \<times> cell) list \<Rightarrow> row \<Rightarrow> row option" where
  "clean_row [] m = Some m"
| "clean_row ((key, val) # rest) m =
     (case key of
        None \<Rightarrow> None
      | Some k \<Rightarrow> clean_row rest (m(remove_bom k \<mapsto> val)))"

fun clean_rows :: "(string option \<times> cell) list list \<Rightarrow> row list option" where
  "clean_rows [] = Some []"
| "clean_rows (r # rest) =
     (case clean_row r Map.empty of
        None \<Rightarrow> None
      | Some cleaned_row \<Rightarrow>
          (case clean_rows rest of
             None \<Rightarrow> None
           | Some data \<Rightarrow> Some (cleaned_row # data)))"

definition load_csv_dict :: "world \<Rightarrow> path \<Rightarrow> error + row list" where
  "load_csv_dict w filepath =
     (case files w filepath of
        None \<Rightarrow> Inl (CsvNotFound filepath)
      | Some f \<Rightarrow>
          (case csv_reader w (content f) of
             None \<Rightarrow> Inl (CsvFailed filepath)
           | Some rows \<Rightarrow>
               (case clean_rows rows of
                  None \<Rightarrow> Inl (CsvFailed filepath)
                | Some data \<Rightarrow> Inr data)))"

definition load_feed :: "world \<Rightarrow> path \<Rightarrow> error + feed_entity list" where
  "load_feed w filepath =
     (case files w filepath of
        None \<Rightarrow> Inl (FeedNotFound filepath)
      | Some f \<Rightarrow>
          (case parse_feed w (content f) of
             None \<Rightarrow> Inl (FeedFailed filepath)
           | Some feed \<Rightarrow> Inr feed))"

subsection \<open>\<open>fetch_and_process_data\<close>: downloads and extraction\<close>

definition write_members :: "(string \<times> bytes) list \<Rightarrow> world \<Rightarrow> world" where
  "write_members ms w =
     fold (\<lambda>(name, body) v.
             v\<lparr>files := (files v)(gtfs_path name \<mapsto> \<lparr>mtime = clock v, content = body\<rparr>)\<rparr>)
          ms w"

text \<open>
  The inner \<open>try\<close> around \<open>zipfile.ZipFile(...).extractall\<close>: \<open>BadZipFile\<close> removes
  the archive before raising, any other exception raises and keeps it.
\<close>

definition extract_gtfs :: "world \<Rightarrow> error option \<times> world" where
  "extract_gtfs w =
     (case files w GTFS_ZIP_FILE of
        None \<Rightarrow> (Some UnzipFailed, w)
      | Some z \<Rightarrow>
          (case unzip w (content z) of
             Extracted ms \<Rightarrow> (None, write_members ms w)
           | BadZipFile ms \<Rightarrow>
               (let w1 = write_members ms w
                in (Some CorruptZip, w1\<lparr>files := (files w1)(GTFS_ZIP_FILE := None)\<rparr>))
           | ExtractFailed ms \<Rightarrow> (Some UnzipFailed, write_members ms w)))"

text \<open>The three \<open>fetch_file\<close> calls and the extraction, in the order of the source.\<close>

definition fetch_all :: "world \<Rightarrow> error option \<times> world" where
  "fetch_all w =
     (case fetch_file VEHICLE_POSITIONS_URL VEHICLE_POSITIONS_FILE 10 w of
        (Some e, w1) \<Rightarrow> (Some e, w1)
      | (None, w1) \<Rightarrow>
     (case fetch_file TRIP_UPDATES_URL TRIP_UPDATES_FILE 10 w1 of
        (Some e, w2) \<Rightarrow> (Some e, w2)
      | (None, w2) \<Rightarrow>
     (case fetch_file GTFS_ZIP_URL GTFS_ZIP_FILE 86400 w2 of
        (Some e, w3) \<Rightarrow> (Some e, w3)
      | (None, w3) \<Rightarrow> extract_gtfs w3)))"

subsection \<open>\<open>fetch_and_process_data\<close>: the static tables\<close>

text \<open>
  The loop that groups the rows of \<open>shapes.txt\<close> by \<open>shape_id\<close>, and before
  it the dictionary the loop appends for one row (\<open>None\<close> when building it raises).
  A missing column is a \<open>KeyError\<close>, \<open>float\<close> or \<open>int\<close> of the cell \<open>None\<close>
  a \<open>TypeError\<close> and an unparsable number a \<open>ValueError\<close>; the outer handler turns
  all three into the \<open>HTTPException\<close> modelled by \<open>Unexpected\<close>. The cell under
  \<open>shape_id\<close> is used as a key as it is, also when it is \<open>None\<close>.
\<close>

definition py_float :: "world \<Rightarrow> cell \<Rightarrow> real option" where
  "py_float w c = (case c of None \<Rightarrow> None | Some x \<Rightarrow> to_float w x)"

definition py_int :: "world \<Rightarrow> cell \<Rightarrow> int option" where
  "py_int w c = (case c of None \<Rightarrow> None | Some x \<Rightarrow> to_int w x)"

definition shape_row_point :: "world \<Rightarrow> row \<Rightarrow> shape_point option" where
  "shape_row_point w shape =
     (case shape ''shape_pt_lat'' of
        None \<Rightarrow> None
      | Some la \<Rightarrow>
          (case py_float w la of
             None \<Rightarrow> None
           | Some la' \<Rightarrow>
               (case shape ''shape_pt_lon'' of
                  None \<Rightarrow> None
                | Some lo \<Rightarrow>
                    (case py_float w lo of
                       None \<Rightarrow> None
                     | Some lo' \<Rightarrow>
                         (case shape ''shape_pt_sequence'' of
                            None \<Rightarrow> None
                          | Some sq \<Rightarrow>
                              (case py_int w sq of
                                 None \<Rightarrow> None
                               | Some sq' \<Rightarrow> Some \<lparr>lat = la', lon = lo', seq = sq'\<rparr>))))))"

fun group_shapes ::
  "world \<Rightarrow> row list \<Rightarrow> (cell \<rightharpoonup> shape_point list) \<Rightarrow> error + (cell \<rightharpoonup> shape_point list)"
where
  "group_shapes w [] d = Inr d"
| "group_shapes w (shape # rest) d =
     (case shape ''shape_id'' of
        None \<Rightarrow> Inl Unexpected
      | Some sid \<Rightarrow>
          (let d1 = (if d sid = None then d(sid \<mapsto> []) else d)
           in case shape_row_point w shape of
                None \<Rightarrow> Inl Unexpected
              | Some pt \<Rightarrow>
                  group_shapes w rest
                    (d1(sid \<mapsto> (case d1 sid of None \<Rightarrow> [] | Some pts \<Rightarrow> pts) @ [pt]))))"

text \<open>
  \<open>shapes_dict[shape_id].sort(key=lambda x: x['seq'])\<close> for every key (Python's sort
  is stable, as \<open>sort_key\<close> is), followed by the conversion to \<open>ShapePoint\<close>, which
  keeps the three values.
\<close>

definition sort_shapes :: "(cell \<rightharpoonup> shape_point list) \<Rightarrow> (cell \<rightharpoonup> shape_point list)" where
  "sort_shapes d = (\<lambda>sid. map_option (sort_key seq) (d sid))"

definition build_shapes_dict :: "world \<Rightarrow> row list \<Rightarrow> error + (cell \<rightharpoonup> shape_point list)" where
  "build_shapes_dict w shapes =
     (case group_shapes w shapes Map.empty of
        Inl e \<Rightarrow> Inl e
      | Inr d \<Rightarrow> Inr (sort_shapes d))"

text \<open>Both tables are loaded, then the shape index is built; the store is not yet touched.\<close>

definition load_static :: "world \<Rightarrow> error + ((cell \<rightharpoonup> shape_point list) \<times> row list)" where
  "load_static w =
     (case load_csv_dict w (gtfs_path ''shapes.txt'') of
        Inl e \<Rightarrow> Inl e
      | Inr shapes \<Rightarrow>
     (case load_csv_dict w (gtfs_path ''trips.txt'') of
        Inl e \<Rightarrow> Inl e
      | Inr trips_rows \<Rightarrow>
     (case build_shapes_dict w shapes of
        Inl e \<Rightarrow> Inl e
      | Inr d \<Rightarrow> Inr (d, trips_rows))))"

text \<open>
  \<open>{trip['trip_id']: trip['shape_id'] for trip in trips}\<close>: a later row wins, a
  missing column is a \<open>KeyError\<close>, and a cell \<open>None\<close> is stored as it is.
\<close>

fun build_trip_shape_map :: "row list \<Rightarrow> (cell \<rightharpoonup> cell) \<Rightarrow> error + (cell \<rightharpoonup> cell)" where
  "build_trip_shape_map [] m = Inr m"
| "build_trip_shape_map (trip # rest) m =
     (case trip ''trip_id'' of
        None \<Rightarrow> Inl Unexpected
      | Some tid \<Rightarrow>
          (case trip ''shape_id'' of
             None \<Rightarrow> Inl Unexpected
           | Some sid \<Rightarrow> build_trip_shape_map rest (m(tid \<mapsto> sid))))"

subsection \<open>\<open>fetch_and_process_data\<close>: trip delays\<close>

text \<open>
  \<open>ev.HasField('delay')\<close> guarded by \<open>HasField\<close> of the event itself, and the value
  read from \<open>ev.delay\<close> (the protobuf default 0 when unset).
\<close>

definition has_delay :: "stop_time_event option \<Rightarrow> bool" where
  "has_delay ev = (case ev of None \<Rightarrow> False | Some e \<Rightarrow> ev_delay e \<noteq> None)"

definition delay_of :: "stop_time_event option \<Rightarrow> int" where
  "delay_of ev =
     (case ev of None \<Rightarrow> 0 | Some e \<Rightarrow> (case ev_delay e of None \<Rightarrow> 0 | Some d \<Rightarrow> d))"

text \<open>The body of the loop over \<open>trip_update_feed.entity\<close>.\<close>

definition trip_delays_step :: "(string \<rightharpoonup> int) \<Rightarrow> feed_entity \<Rightarrow> (string \<rightharpoonup> int)" where
  "trip_delays_step m entity =
     (case fe_trip_update entity of
        None \<Rightarrow> m
      | Some tu \<Rightarrow>
          (case tu_stop_time_update tu of
             [] \<Rightarrow> m
           | st0 # _ \<Rightarrow>
               if has_delay (arrival st0) then m(tu_trip_id tu \<mapsto> delay_of (arrival st0))
               else if has_delay (departure st0)
                    then m(tu_trip_id tu \<mapsto> delay_of (departure st0))
               else m))"

definition build_trip_delays :: "feed_entity list \<Rightarrow> (string \<rightharpoonup> int)" where
  "build_trip_delays entities = fold (\<lambda>entity m. trip_delays_step m entity) entities Map.empty"

text \<open>
  The delay one trip update yields, in the words of the specification: only the first
  stop-time update counts; its arrival delay if present, else its departure delay if
  present, else none.
\<close>

definition spec_event_delay :: "stop_time_event option \<Rightarrow> int option" where
  "spec_event_delay ev = (case ev of None \<Rightarrow> None | Some e \<Rightarrow> ev_delay e)"

fun spec_first_stop_delay :: "stop_time_update list \<Rightarrow> int option" where
  "spec_first_stop_delay [] = None"
| "spec_first_stop_delay (st # _) =
     (case spec_event_delay (arrival st) of
        Some d \<Rightarrow> Some d
      | None \<Rightarrow> spec_event_delay (departure st))"

subsection \<open>\<open>fetch_and_process_data\<close>: fusion\<close>

text \<open>
  The record built for one vehicle entity. \<open>dict.get\<close> never raises: a missing trip
  gives no delay and the shape identifier \<open>None\<close>, and
  \<open>shapes_dict.get(shape_id, [])\<close> looks up whatever identifier came out, \<open>None\<close>
  included, with the empty list as default. The sequence number becomes a float in the
  record; as floats are reals here, that conversion is total.
\<close>

definition point_to_dict :: "shape_point \<Rightarrow> point_dict" where
  "point_to_dict p = \<lparr>pt_lat = lat p, pt_lon = lon p, pt_seq = real_of_int (seq p)\<rparr>"

definition make_vehicle_data :: "store \<Rightarrow> vehicle_position \<Rightarrow> vehicle_data" where
  "make_vehicle_data s vehicle =
     (let delay = trip_delays s (vp_trip_id vehicle);
          shape = (case trip_shape_map s (Some (vp_trip_id vehicle)) of
                     None \<Rightarrow> None
                   | Some sid \<Rightarrow> sid);
          shape_points_raw = (case shapes_dict s shape of None \<Rightarrow> [] | Some pts \<Rightarrow> pts)
      in \<lparr>vehicle_id = vp_vehicle_id vehicle,
          route_id = vp_route_id vehicle,
          trip_id = vp_trip_id vehicle,
          position = \<lparr>latitude = vp_latitude vehicle, longitude = vp_longitude vehicle\<rparr>,
          delay_seconds = delay,
          shape_id = shape,
          shape_points = map point_to_dict shape_points_raw\<rparr>)"

text \<open>The loop over \<open>vehicle_feed.entity\<close>, appending to \<open>current_vehicle_positions\<close>.\<close>

fun fuse_vehicles :: "store \<Rightarrow> feed_entity list \<Rightarrow> vehicle_data list \<Rightarrow> vehicle_data list" where
  "fuse_vehicles s [] current = current"
| "fuse_vehicles s (entity # rest) current =
     fuse_vehicles s rest
       (case fe_vehicle entity of
          None \<Rightarrow> current
        | Some vehicle \<Rightarrow> current @ [make_vehicle_data s vehicle])"

subsection \<open>\<open>fetch_and_process_data\<close>: the whole run\<close>

text \<open>
  The result of one run: the error it raised if any, the world it leaves, and the value
  of \<open>data_store\<close> after each of its assignments to a field of the store, in order.
\<close>

record run_result =
  outcome :: "error option"
  world_after :: world
  store_trace :: "store list"

definition final_store :: "store \<Rightarrow> run_result \<Rightarrow> store" where
  "final_store s0 r = last (s0 # store_trace r)"

text \<open>
  The realtime part, entered with the store \<open>s3\<close> that already holds the static
  tables of this run: both feeds are parsed, then the delays, the vehicle list and the
  timestamp are assigned.
\<close>

definition process_realtime :: "world \<Rightarrow> store \<Rightarrow> error option \<times> store list" where
  "process_realtime w s3 =
     (case load_feed w VEHICLE_POSITIONS_FILE of
        Inl e \<Rightarrow> (Some e, [])
      | Inr vehicle_feed \<Rightarrow>
     (case load_feed w TRIP_UPDATES_FILE of
        Inl e \<Rightarrow> (Some e, [])
      | Inr trip_update_feed \<Rightarrow>
          (let s4 = s3\<lparr>trip_delays := build_trip_delays trip_update_feed\<rparr>;
               s5 = s4\<lparr>vehicle_positions := fuse_vehicles s4 vehicle_feed []\<rparr>;
               s6 = s5\<lparr>last_updated := Some (clock w)\<rparr>
           in (None, [s4, s5, s6]))))"

text \<open>
  The static tables are installed field by field: \<open>shapes_dict\<close>, then \<open>trips\<close>, then
  \<open>trip_shape_map\<close>, whose construction can still raise.
\<close>

definition install_and_process ::
  "world \<Rightarrow> store \<Rightarrow> (cell \<rightharpoonup> shape_point list) \<Rightarrow> row list \<Rightarrow> error option \<times> store list"
where
  "install_and_process w s0 d trips_rows =
     (let s1 = s0\<lparr>shapes_dict := d\<rparr>;
          s2 = s1\<lparr>trips := trips_rows\<rparr>
      in case build_trip_shape_map trips_rows Map.empty of
           Inl e \<Rightarrow> (Some e, [s1, s2])
         | Inr m \<Rightarrow>
             (let s3 = s2\<lparr>trip_shape_map := m\<rparr>
              in case process_realtime w s3 of
                   (res, tr) \<Rightarrow> (res, [s1, s2, s3] @ tr)))"

definition fetch_and_process_data :: "world \<Rightarrow> store \<Rightarrow> run_result" where
  "fetch_and_process_data w s0 =
     (case fetch_all w of
        (Some e, w') \<Rightarrow> \<lparr>outcome = Some e, world_after = w', store_trace = []\<rparr>
      | (None, w') \<Rightarrow>
          (case load_static w' of
             Inl e \<Rightarrow> \<lparr>outcome = Some e, world_after = w', store_trace = []\<rparr>
           | Inr (d, trips_rows) \<Rightarrow>
               (case install_and_process w' s0 d trips_rows of
                  (res, tr) \<Rightarrow> \<lparr>outcome = res, world_after = w', store_trace = tr\<rparr>)))"

subsection \<open>The read endpoints\<close>

definition get_vehicle_positions :: "store \<Rightarrow> error + vehicle_data list" where
  "get_vehicle_positions s =
     (if vehicle_positions s = [] then Inl NoVehicleData else Inr (vehicle_positions s))"

subsection \<open>Example inputs\<close>

text \<open>
  A small world for the concrete instances below: an empty cache, a network that serves
  the three resources, an archive with \<open>shapes.txt\<close> (two points of shape \<open>S1\<close>,
  listed out of order) and \<open>trips.txt\<close> (trip \<open>T1\<close> on shape \<open>S1\<close>, trip \<open>T2\<close>
  on a shape \<open>S9\<close> that has no points), three vehicles (on \<open>T1\<close>, on \<open>T2\<close> and on
  the unlisted trip \<open>T3\<close>) and one trip update for \<open>T1\<close> whose first stop has only
  a departure delay of 42 and whose second stop has an arrival delay of 7.
\<close>

definition full_row :: "(string \<times> string) list \<Rightarrow> (string option \<times> cell) list" where
  "full_row items = map (\<lambda>(key, val). (Some key, Some val)) items"

definition example_shapes :: "(string option \<times> cell) list list" where
  "example_shapes =
     [full_row [(''shape_id'', ''S1''), (''shape_pt_lat'', ''52.4''), (''shape_pt_lon'', ''16.9''),
                (''shape_pt_sequence'', ''2'')],
      full_row [(''shape_id'', ''S1''), (''shape_pt_lat'', ''52.4''), (''shape_pt_lon'', ''16.9''),
                (''shape_pt_sequence'', ''1'')]]"

definition example_trips :: "(string option \<times> cell) list list" where
  "example_trips =
     [full_row [(''trip_id'', ''T1''), (''shape_id'', ''S1'')],
      full_row [(''trip_id'', ''T2''), (''shape_id'', ''S9'')]]"

definition example_vehicle :: "string \<Rightarrow> string \<Rightarrow> feed_entity" where
  "example_vehicle vid tid =
     \<lparr>fe_trip_update = None,
      fe_vehicle = Some \<lparr>vp_trip_id = tid, vp_route_id = ''16'', vp_vehicle_id = vid,
                          vp_latitude = 52.4, vp_longitude = 16.9\<rparr>\<rparr>"

definition example_vehicle_feed :: "feed_entity list" where
  "example_vehicle_feed =
     [example_vehicle ''V1'' ''T1'', example_vehicle ''V2'' ''T2'', example_vehicle ''V3'' ''T3'']"

definition departure_only :: "int \<Rightarrow> stop_time_update" where
  "departure_only d =
     \<lparr>arrival = None, departure = Some \<lparr>ev_delay = Some d, ev_time = None\<rparr>\<rparr>"

definition arrival_only :: "int \<Rightarrow> stop_time_update" where
  "arrival_only d =
     \<lparr>arrival = Some \<lparr>ev_delay = Some d, ev_time = None\<rparr>, departure = None\<rparr>"

definition example_update :: "string \<Rightarrow> stop_time_update list \<Rightarrow> feed_entity" where
  "example_update tid stus =
     \<lparr>fe_trip_update = Some \<lparr>tu_trip_id = tid, tu_stop_time_update = stus\<rparr>,
      fe_vehicle = None\<rparr>"

definition example_trip_updates :: "feed_entity list" where
  "example_trip_updates = [example_update ''T1'' [departure_only 42, arrival_only 7]]"

definition example_world :: world where
  "example_world =
     \<lparr>clock = 1000,
      files = Map.empty,
      http_get = (\<lambda>u. if u = VEHICLE_POSITIONS_URL then Some ''V''
                      else if u = TRIP_UPDATES_URL then Some ''U''
                      else if u = GTFS_ZIP_URL then Some ''Z'' else None),
      requested = [],
      unzip = (\<lambda>b. if b = ''Z'' then Extracted [(''shapes.txt'', ''S''), (''trips.txt'', ''T'')]
                   else BadZipFile []),
      csv_reader = (\<lambda>b. if b = ''S'' then Some example_shapes
                        else if b = ''T'' then Some example_trips else None),
      parse_feed = (\<lambda>b. if b = ''V'' then Some example_vehicle_feed
                        else if b = ''U'' then Some example_trip_updates else None),
      to_float = (\<lambda>x. if x = ''52.4'' then Some 52.4
                      else if x = ''16.9'' then Some 16.9 else None),
      to_int = (\<lambda>x. if x = ''1'' then Some 1 else if x = ''2'' then Some 2 else None)\<rparr>"

text \<open>The store the example world produces from the initial store.\<close>

definition example_store :: store where
  "example_store = final_store initial_store (fetch_and_process_data example_world initial_store)"


definition no_vehicles_world :: world where
  "no_vehicles_world =
     example_world\<lparr>parse_feed := (\<lambda>b. if b = ''U'' then Some example_trip_updates
                                        else Some [])\<rparr>"




text \<open>
  A world whose \<open>shapes.txt\<close> has the header
  \<open>shape_pt_lat,shape_pt_lon,shape_pt_sequence,shape_id\<close> and the single line
  \<open>52.4,16.9,1\<close>, one cell short: \<open>csv.DictReader\<close> gives the row the cell
  \<open>None\<close> under \<open>shape_id\<close>.
\<close>

definition short_row_shapes :: "(string option \<times> cell) list list" where
  "short_row_shapes =
     [[(Some ''shape_pt_lat'', Some ''52.4''), (Some ''shape_pt_lon'', Some ''16.9''),
       (Some ''shape_pt_sequence'', Some ''1''), (Some ''shape_id'', None)]]"

definition short_row_world :: world where
  "short_row_world =
     example_world\<lparr>csv_reader := (\<lambda>b. if b = ''S'' then Some short_row_shapes
                                       else if b = ''T'' then Some example_trips else None)\<rparr>"

definition short_row_store :: store where
  "short_row_store =
     final_store initial_store (fetch_and_process_data short_row_world initial_store)"

text \<open>The example world after its first download of the vehicle positions.\<close>

definition example_world_fetched :: world where
  "example_world_fetched =
     snd (fetch_file VEHICLE_POSITIONS_URL VEHICLE_POSITIONS_FILE 10 example_world)"





subsection \<open>The freshness rule of the specification\<close>

text \<open>
  The condition under which the specification lets the fetcher write: the local file
  is absent, or its age is at least \<open>max_age\<close>.
\<close>

definition spec_refetch_due :: "world \<Rightarrow> path \<Rightarrow> int \<Rightarrow> bool" where
  "spec_refetch_due w filepath max_age =
     (case files w filepath of
        None \<Rightarrow> True
      | Some f \<Rightarrow> real_of_int max_age \<le> clock w - mtime f)"

subsection \<open>The time before the first successful refresh\<close>

text \<open>
  The stores the process can hold while no run has succeeded: the initial store, and
  the store any failed run leaves from such a store, in whatever world the run meets.
\<close>

inductive only_failed_refreshes :: "store \<Rightarrow> bool" where
  start: "only_failed_refreshes initial_store"
| failed: "only_failed_refreshes s \<Longrightarrow> outcome (fetch_and_process_data w s) = Some e \<Longrightarrow>
           only_failed_refreshes (final_store s (fetch_and_process_data w s))"

section \<open>Properties\<close>

subsection \<open>Evaluation of the example\<close>

lemmas consts_defs = VEHICLE_POSITIONS_URL_def TRIP_UPDATES_URL_def GTFS_ZIP_URL_def
  VEHICLE_POSITIONS_FILE_def TRIP_UPDATES_FILE_def GTFS_ZIP_FILE_def GTFS_DIR_def gtfs_path_def

lemmas run_defs = fetch_and_process_data_def fetch_all_def fetch_file_def download_def
  extract_gtfs_def write_members_def load_static_def load_csv_dict_def py_float_def py_int_def
  build_shapes_dict_def sort_shapes_def shape_row_point_def install_and_process_def
  process_realtime_def load_feed_def build_trip_delays_def trip_delays_step_def has_delay_def
  delay_of_def make_vehicle_data_def point_to_dict_def final_store_def Let_def

lemmas example_defs = example_world_def example_shapes_def example_trips_def full_row_def
  example_vehicle_feed_def example_vehicle_def example_trip_updates_def example_update_def
  departure_only_def arrival_only_def initial_store_def

lemma example_run_succeeds:
  "outcome (fetch_and_process_data example_world initial_store) = None"
  by (simp add: run_defs example_defs consts_defs)

lemma example_store_shapes:
  "shapes_dict example_store (Some ''S1'') =
     Some [\<lparr>lat = 52.4, lon = 16.9, seq = 1\<rparr>, \<lparr>lat = 52.4, lon = 16.9, seq = 2\<rparr>]"
  "shapes_dict example_store (Some ''S9'') = None"
  by (simp_all add: example_store_def run_defs example_defs consts_defs)


lemma example_store_vehicles:
  "map (\<lambda>v. (vehicle_id v, delay_seconds v, shape_id v, length (shape_points v)))
       (vehicle_positions example_store) =
     [(''V1'', Some 42, Some ''S1'', 2), (''V2'', None, Some ''S9'', 0), (''V3'', None, None, 0)]"
  by (simp add: example_store_def run_defs example_defs consts_defs)

subsection \<open>Fusion\<close>

lemma fuse_vehicles_append:
  "fuse_vehicles s feed current =
     current @ map (make_vehicle_data s) (List.map_filter fe_vehicle feed)"
  by (induction feed arbitrary: current) (auto simp: List.map_filter_simps split: option.splits)


lemma length_fuse_vehicles:
  "length (fuse_vehicles s feed []) = length (filter (\<lambda>e. fe_vehicle e \<noteq> None) feed)"
  by (simp add: fuse_vehicles_append List.map_filter_def)

lemma make_vehicle_data_trip_id: "trip_id (make_vehicle_data s v) = vp_trip_id v"
  by (simp add: make_vehicle_data_def Let_def)


lemma make_vehicle_data_shape_points:
  "shape_points (make_vehicle_data s v) =
     map point_to_dict
       (case shapes_dict s (shape_id (make_vehicle_data s v)) of None \<Rightarrow> [] | Some pts \<Rightarrow> pts)"
  by (simp add: make_vehicle_data_def Let_def)


text \<open>
  For a trip without an entry in \<open>trip_shape_map\<close> the record has no \<open>shape_id\<close>, and
  its \<open>shape_points\<close> are those the shape index holds under the key \<open>None\<close>: none
  if the index has no such key.
\<close>

lemma make_vehicle_data_unmapped:
  assumes "trip_shape_map s (Some (vp_trip_id v)) = None"
  shows "shape_id (make_vehicle_data s v) = None"
    and "shape_points (make_vehicle_data s v) =
           map point_to_dict (case shapes_dict s None of None \<Rightarrow> [] | Some pts \<Rightarrow> pts)"
    and "shapes_dict s None = None \<Longrightarrow> shape_points (make_vehicle_data s v) = []"
  using assms by (simp_all add: make_vehicle_data_def Let_def)

lemma short_row_run:
  "outcome (fetch_and_process_data short_row_world initial_store) = None"
  "trip_shape_map short_row_store (Some ''T3'') = None"
  "shapes_dict short_row_store None = Some [\<lparr>lat = 52.4, lon = 16.9, seq = 1\<rparr>]"
  by (simp_all add: short_row_store_def short_row_world_def short_row_shapes_def
      run_defs example_defs consts_defs)

text \<open>
  Claim C5. The claim holds of every store whose shape index has nothing under the key
  \<open>None\<close> (\<open>make_vehicle_data_unmapped\<close>), and the code does not keep that key out:
  \<open>shapes.txt\<close> with the header \<open>shape_pt_lat,shape_pt_lon,shape_pt_sequence,shape_id\<close>
  and the line \<open>52.4,16.9,1\<close> gives a row whose \<open>shape_id\<close> is \<open>None\<close>, the loader
  files its point under the key \<open>None\<close>, and the refresh succeeds. The vehicle \<open>V3\<close>
  on the trip \<open>T3\<close>, which has no entry in \<open>trip_shape_map\<close>, then gets no \<open>shape_id\<close>
  but that point as its \<open>shape_points\<close>, where the claim promises the empty sequence.
\<close>

theorem unmapped_trip_gets_none_keyed_points:
  "outcome (fetch_and_process_data short_row_world initial_store) = None \<and>
   trip_shape_map short_row_store (Some ''T3'') = None \<and>
   map (\<lambda>v. (vehicle_id v, trip_id v, shape_id v, shape_points v))
       (vehicle_positions short_row_store) =
     [(''V1'', ''T1'', Some ''S1'', []),
      (''V2'', ''T2'', Some ''S9'', []),
      (''V3'', ''T3'', None, [\<lparr>pt_lat = 52.4, pt_lon = 16.9, pt_seq = 1\<rparr>])]"
  by (simp add: short_row_store_def short_row_world_def short_row_shapes_def
      run_defs example_defs consts_defs)



subsection \<open>Trip delays\<close>

lemma trip_delays_step_spec:
  "trip_delays_step m entity =
     (case fe_trip_update entity of
        None \<Rightarrow> m
      | Some tu \<Rightarrow>
          (case spec_first_stop_delay (tu_stop_time_update tu) of
             None \<Rightarrow> m
           | Some d \<Rightarrow> m(tu_trip_id tu \<mapsto> d)))"
  by (auto simp: trip_delays_step_def has_delay_def delay_of_def spec_event_delay_def
      split: option.splits list.splits)

lemma build_trip_delays_snoc:
  "build_trip_delays (entities @ [entity]) =
     trip_delays_step (build_trip_delays entities) entity"
  by (simp add: build_trip_delays_def)

text \<open>
  Claim C4. Each trip-update entity of the feed changes the delay map only at its own
  \<open>trip_id\<close>, and only to the delay of its first stop-time update: the arrival delay if
  present, else the departure delay if present, else the map stays as it is. The later
  stop-time updates of the entity do not matter, and an entity whose first stop has
  only a departure delay of 42 records 42 for its trip.
\<close>

theorem trip_delay_from_first_stop:
  "build_trip_delays (entities @ [entity]) =
     (case fe_trip_update entity of
        None \<Rightarrow> build_trip_delays entities
      | Some tu \<Rightarrow>
          (case spec_first_stop_delay (tu_stop_time_update tu) of
             None \<Rightarrow> build_trip_delays entities
           | Some d \<Rightarrow> (build_trip_delays entities)(tu_trip_id tu \<mapsto> d))) \<and>
   trip_delays_step m
       \<lparr>fe_trip_update = Some \<lparr>tu_trip_id = tid, tu_stop_time_update = st # later\<rparr>,
        fe_vehicle = v\<rparr> =
     trip_delays_step m
       \<lparr>fe_trip_update = Some \<lparr>tu_trip_id = tid, tu_stop_time_update = [st]\<rparr>,
        fe_vehicle = v\<rparr> \<and>
   build_trip_delays
       [\<lparr>fe_trip_update =
           Some \<lparr>tu_trip_id = tid,
                 tu_stop_time_update =
                   \<lparr>arrival = None,
                    departure = Some \<lparr>ev_delay = Some 42, ev_time = t\<rparr>\<rparr> # later\<rparr>,
         fe_vehicle = v\<rparr>] tid = Some 42 \<and>
   build_trip_delays
       [\<lparr>fe_trip_update =
           Some \<lparr>tu_trip_id = tid,
                 tu_stop_time_update =
                   \<lparr>arrival = Some \<lparr>ev_delay = None, ev_time = t'\<rparr>,
                    departure = Some \<lparr>ev_delay = Some 42, ev_time = t\<rparr>\<rparr> # later\<rparr>,
         fe_vehicle = v\<rparr>] tid = Some 42"
proof -
  have a: "build_trip_delays (entities @ [entity]) =
     (case fe_trip_update entity of
        None \<Rightarrow> build_trip_delays entities
      | Some tu \<Rightarrow>
          (case spec_first_stop_delay (tu_stop_time_update tu) of
             None \<Rightarrow> build_trip_delays entities
           | Some d \<Rightarrow> (build_trip_delays entities)(tu_trip_id tu \<mapsto> d)))"
    by (simp only: build_trip_delays_snoc trip_delays_step_spec)
  have b: "trip_delays_step m
       \<lparr>fe_trip_update = Some \<lparr>tu_trip_id = tid, tu_stop_time_update = st # later\<rparr>,
        fe_vehicle = v\<rparr> =
     trip_delays_step m
       \<lparr>fe_trip_update = Some \<lparr>tu_trip_id = tid, tu_stop_time_update = [st]\<rparr>,
        fe_vehicle = v\<rparr>"
    by (simp add: trip_delays_step_def)
  have c: "build_trip_delays
       [\<lparr>fe_trip_update =
           Some \<lparr>tu_trip_id = tid,
                 tu_stop_time_update =
                   \<lparr>arrival = None,
                    departure = Some \<lparr>ev_delay = Some 42, ev_time = t\<rparr>\<rparr> # later\<rparr>,
         fe_vehicle = v\<rparr>] tid = Some 42"
    by (simp add: build_trip_delays_def trip_delays_step_def has_delay_def delay_of_def)
  have d: "build_trip_delays
       [\<lparr>fe_trip_update =
           Some \<lparr>tu_trip_id = tid,
                 tu_stop_time_update =
                   \<lparr>arrival = Some \<lparr>ev_delay = None, ev_time = t'\<rparr>,
                    departure = Some \<lparr>ev_delay = Some 42, ev_time = t\<rparr>\<rparr> # later\<rparr>,
         fe_vehicle = v\<rparr>] tid = Some 42"
    by (simp add: build_trip_delays_def trip_delays_step_def has_delay_def delay_of_def)
  from a b c d show ?thesis by (intro conjI)
qed

subsection \<open>The shape index\<close>

lemma load_static_sorted:
  "load_static w = Inr (d, tr) \<Longrightarrow> d sid = Some pts \<Longrightarrow> sorted (map seq pts)"
  by (auto simp: load_static_def build_shapes_dict_def sort_shapes_def split: sum.splits)

subsection \<open>The shapes of a run\<close>

lemma process_realtime_cases:
  "(\<exists>e. process_realtime w s3 = (Some e, [])) \<or>
   (\<exists>vf tf. load_feed w VEHICLE_POSITIONS_FILE = Inr vf \<and> load_feed w TRIP_UPDATES_FILE = Inr tf \<and>
      process_realtime w s3 =
        (None, [s3\<lparr>trip_delays := build_trip_delays tf\<rparr>,
                s3\<lparr>trip_delays := build_trip_delays tf,
                   vehicle_positions := fuse_vehicles (s3\<lparr>trip_delays := build_trip_delays tf\<rparr>) vf []\<rparr>,
                s3\<lparr>trip_delays := build_trip_delays tf,
                   vehicle_positions := fuse_vehicles (s3\<lparr>trip_delays := build_trip_delays tf\<rparr>) vf [],
                   last_updated := Some (clock w)\<rparr>]))"
  by (simp add: process_realtime_def Let_def split: sum.splits)

text \<open>
  A run ends in one of four ways: before the first assignment to the store, while the
  trip-to-shape map is built, while the realtime feeds are parsed, or successfully.
\<close>

lemma run_cases:
  fixes w s0
  defines "r \<equiv> fetch_and_process_data w s0"
  obtains
    (early) e where "outcome r = Some e" "store_trace r = []"
      "fst (fetch_all w) \<noteq> None \<or> isl (load_static (world_after r))"
  | (trip_map) e d tr where "outcome r = Some e" "fetch_all w = (None, world_after r)"
      "load_static (world_after r) = Inr (d, tr)"
      "store_trace r = [s0\<lparr>shapes_dict := d\<rparr>, s0\<lparr>shapes_dict := d, trips := tr\<rparr>]"
  | (feeds) e d tr m where "outcome r = Some e" "fetch_all w = (None, world_after r)"
      "load_static (world_after r) = Inr (d, tr)"
      "store_trace r = [s0\<lparr>shapes_dict := d\<rparr>, s0\<lparr>shapes_dict := d, trips := tr\<rparr>,
                         s0\<lparr>shapes_dict := d, trips := tr, trip_shape_map := m\<rparr>]"
  | (success) d tr m vf tf where "outcome r = None" "fetch_all w = (None, world_after r)"
      "load_static (world_after r) = Inr (d, tr)"
      "load_feed (world_after r) VEHICLE_POSITIONS_FILE = Inr vf"
      "load_feed (world_after r) TRIP_UPDATES_FILE = Inr tf"
      "store_trace r =
         [s0\<lparr>shapes_dict := d\<rparr>, s0\<lparr>shapes_dict := d, trips := tr\<rparr>,
          s0\<lparr>shapes_dict := d, trips := tr, trip_shape_map := m\<rparr>,
          s0\<lparr>shapes_dict := d, trips := tr, trip_shape_map := m, trip_delays := build_trip_delays tf\<rparr>,
          s0\<lparr>shapes_dict := d, trips := tr, trip_shape_map := m, trip_delays := build_trip_delays tf,
             vehicle_positions :=
               fuse_vehicles (s0\<lparr>shapes_dict := d, trips := tr, trip_shape_map := m,
                                 trip_delays := build_trip_delays tf\<rparr>) vf []\<rparr>,
          s0\<lparr>shapes_dict := d, trips := tr, trip_shape_map := m, trip_delays := build_trip_delays tf,
             vehicle_positions :=
               fuse_vehicles (s0\<lparr>shapes_dict := d, trips := tr, trip_shape_map := m,
                                 trip_delays := build_trip_delays tf\<rparr>) vf [],
             last_updated := Some (clock (world_after r))\<rparr>]"
proof -
  obtain res w' where fa: "fetch_all w = (res, w')" by (cases "fetch_all w")
  show thesis
  proof (cases res)
    case (Some e)
    with fa have "outcome r = Some e" "store_trace r = []" "fst (fetch_all w) \<noteq> None"
      by (simp_all add: r_def fetch_and_process_data_def)
    then show ?thesis using early by blast
  next
    case None
    note res = this
    show ?thesis
    proof (cases "load_static w'")
      case (Inl e)
      with fa res have "outcome r = Some e" "store_trace r = []" "world_after r = w'"
        by (simp_all add: r_def fetch_and_process_data_def)
      then show ?thesis using early Inl by auto
    next
      case (Inr p)
      obtain d tr where p: "p = (d, tr)" by (cases p)
      have wa: "world_after r = w'"
        using fa res Inr p by (simp add: r_def fetch_and_process_data_def split: prod.splits)
      have r: "outcome r = fst (install_and_process w' s0 d tr)"
        "store_trace r = snd (install_and_process w' s0 d tr)"
        using fa res Inr p by (simp_all add: r_def fetch_and_process_data_def split: prod.splits)
      show ?thesis
      proof (cases "build_trip_shape_map tr Map.empty")
        case (Inl e)
        then have "outcome r = Some e"
          "store_trace r = [s0\<lparr>shapes_dict := d\<rparr>, s0\<lparr>shapes_dict := d, trips := tr\<rparr>]"
          using r by (simp_all add: install_and_process_def Let_def)
        then show ?thesis using trip_map fa res Inr p wa by auto
      next
        case (Inr m)
        note m = this
        let ?s3 = "s0\<lparr>shapes_dict := d, trips := tr, trip_shape_map := m\<rparr>"
        have r': "outcome r = fst (process_realtime w' ?s3)"
          "store_trace r = [s0\<lparr>shapes_dict := d\<rparr>, s0\<lparr>shapes_dict := d, trips := tr\<rparr>, ?s3]
             @ snd (process_realtime w' ?s3)"
          using r m by (simp_all add: install_and_process_def Let_def split: prod.splits)
        from process_realtime_cases [of w' ?s3] show ?thesis
        proof (elim disjE exE conjE)
          fix e assume "process_realtime w' ?s3 = (Some e, [])"
          with r' have "outcome r = Some e"
            "store_trace r = [s0\<lparr>shapes_dict := d\<rparr>, s0\<lparr>shapes_dict := d, trips := tr\<rparr>, ?s3]"
            by simp_all
          then show ?thesis using feeds fa res \<open>load_static w' = Inr p\<close> p wa by auto
        next
          fix vf tf
          assume a: "load_feed w' VEHICLE_POSITIONS_FILE = Inr vf"
            "load_feed w' TRIP_UPDATES_FILE = Inr tf"
            and b: "process_realtime w' ?s3 =
        (None, [?s3\<lparr>trip_delays := build_trip_delays tf\<rparr>,
                ?s3\<lparr>trip_delays := build_trip_delays tf,
                   vehicle_positions := fuse_vehicles (?s3\<lparr>trip_delays := build_trip_delays tf\<rparr>) vf []\<rparr>,
                ?s3\<lparr>trip_delays := build_trip_delays tf,
                   vehicle_positions := fuse_vehicles (?s3\<lparr>trip_delays := build_trip_delays tf\<rparr>) vf [],
                   last_updated := Some (clock w')\<rparr>])"
          from r' b have "outcome r = None" by simp
          moreover from r' b have "store_trace r =
         [s0\<lparr>shapes_dict := d\<rparr>, s0\<lparr>shapes_dict := d, trips := tr\<rparr>,
          s0\<lparr>shapes_dict := d, trips := tr, trip_shape_map := m\<rparr>,
          s0\<lparr>shapes_dict := d, trips := tr, trip_shape_map := m, trip_delays := build_trip_delays tf\<rparr>,
          s0\<lparr>shapes_dict := d, trips := tr, trip_shape_map := m, trip_delays := build_trip_delays tf,
             vehicle_positions :=
               fuse_vehicles (s0\<lparr>shapes_dict := d, trips := tr, trip_shape_map := m,
                                 trip_delays := build_trip_delays tf\<rparr>) vf []\<rparr>,
          s0\<lparr>shapes_dict := d, trips := tr, trip_shape_map := m, trip_delays := build_trip_delays tf,
             vehicle_positions :=
               fuse_vehicles (s0\<lparr>shapes_dict := d, trips := tr, trip_shape_map := m,
                                 trip_delays := build_trip_delays tf\<rparr>) vf [],
             last_updated := Some (clock (world_after r))\<rparr>]"
            by (simp add: wa)
          ultimately show ?thesis
            using success [of d tr vf tf m] fa res \<open>load_static w' = Inr p\<close> p wa a by auto
        qed
      qed
    qed
  qed
qed

lemma world_after_run: "world_after (fetch_and_process_data w s0) = snd (fetch_all w)"
  by (simp add: fetch_and_process_data_def split: prod.splits option.splits sum.splits)

lemma final_store_in_trace:
  "store_trace r \<noteq> [] \<Longrightarrow> final_store s0 r \<in> set (store_trace r)"
  by (simp add: final_store_def)

lemma example_store_in_trace:
  "example_store \<in> set (store_trace (fetch_and_process_data example_world initial_store))"
  unfolding example_store_def
  by (rule final_store_in_trace) (simp add: run_defs example_defs consts_defs)

lemma example_load_feed:
  "load_feed (world_after (fetch_and_process_data example_world initial_store))
     VEHICLE_POSITIONS_FILE = Inr example_vehicle_feed"
  by (simp add: world_after_run fetch_all_def fetch_file_def download_def extract_gtfs_def
      write_members_def load_feed_def Let_def example_world_def consts_defs)

subsection \<open>Failed runs\<close>

lemma failed_run_keeps:
  assumes "outcome (fetch_and_process_data w s0) = Some e"
  shows "trip_delays (final_store s0 (fetch_and_process_data w s0)) = trip_delays s0 \<and>
     vehicle_positions (final_store s0 (fetch_and_process_data w s0)) = vehicle_positions s0 \<and>
     last_updated (final_store s0 (fetch_and_process_data w s0)) = last_updated s0"
proof (cases rule: run_cases [of w s0])
  case (early e)
  then show ?thesis by (simp add: final_store_def)
next
  case (trip_map e d tr)
  then show ?thesis by (simp add: final_store_def)
next
  case (feeds e d tr m)
  then show ?thesis by (simp add: final_store_def)
next
  case (success d tr m vf tf)
  with assms show ?thesis by simp
qed








subsection \<open>Reading the vehicle list\<close>

lemma only_failed_refreshes_empty:
  "only_failed_refreshes s \<Longrightarrow> vehicle_positions s = [] \<and> last_updated s = None"
  by (induction rule: only_failed_refreshes.induct)
     (simp_all add: initial_store_def failed_run_keeps)

lemma successful_run_final:
  assumes "outcome (fetch_and_process_data w s0) = None"
  shows "\<exists>feed. load_feed (world_after (fetch_and_process_data w s0)) VEHICLE_POSITIONS_FILE = Inr feed \<and>
     last_updated (final_store s0 (fetch_and_process_data w s0)) = Some (clock (world_after (fetch_and_process_data w s0))) \<and>
     length (vehicle_positions (final_store s0 (fetch_and_process_data w s0))) =
       length (filter (\<lambda>e. fe_vehicle e \<noteq> None) feed)"
proof (cases rule: run_cases [of w s0])
  case (early e)
  with assms show ?thesis by simp
next
  case (trip_map e d tr)
  with assms show ?thesis by simp
next
  case (feeds e d tr m)
  with assms show ?thesis by simp
next
  case (success d tr m vf tf)
  then show ?thesis by (simp add: final_store_def length_fuse_vehicles)
qed

lemma no_vehicles_run:
  "outcome (fetch_and_process_data no_vehicles_world initial_store) = None"
  "vehicle_positions (final_store initial_store (fetch_and_process_data no_vehicles_world initial_store)) = []"
  "last_updated (final_store initial_store (fetch_and_process_data no_vehicles_world initial_store)) = Some 1000"
  by (simp_all add: no_vehicles_world_def run_defs example_defs consts_defs)

text \<open>
  Claim C3, as stated: after any successful refresh every read returns the list. It
  fails when the refreshed vehicle feed has no vehicle entity: the run succeeds and the
  read still raises the 404.
\<close>

theorem successful_refresh_read_still_fails:
  "outcome (fetch_and_process_data no_vehicles_world initial_store) = None \<and>
   get_vehicle_positions
     (final_store initial_store (fetch_and_process_data no_vehicles_world initial_store)) =
     Inl NoVehicleData"
  by (simp add: no_vehicles_run get_vehicle_positions_def)

text \<open>
  Claim C3, amended. A read fails with the no-data error exactly when the stored vehicle
  list is empty. While no run has succeeded every read fails and \<open>last_updated\<close> is
  unset. After a successful run \<open>last_updated\<close> is set, and the read returns the list
  exactly when the vehicle feed of that run held at least one vehicle entity.
\<close>

theorem read_fails_iff_no_vehicles:
  "(get_vehicle_positions s = Inl NoVehicleData \<longleftrightarrow> vehicle_positions s = []) \<and>
   (only_failed_refreshes s \<longrightarrow>
      get_vehicle_positions s = Inl NoVehicleData \<and> last_updated s = None) \<and>
   (outcome (fetch_and_process_data w s) = None \<longrightarrow>
      last_updated (final_store s (fetch_and_process_data w s)) \<noteq> None \<and>
      (\<exists>feed. load_feed (world_after (fetch_and_process_data w s)) VEHICLE_POSITIONS_FILE = Inr feed \<and>
         get_vehicle_positions (final_store s (fetch_and_process_data w s)) =
           (if \<forall>e \<in> set feed. fe_vehicle e = None then Inl NoVehicleData
            else Inr (vehicle_positions (final_store s (fetch_and_process_data w s))))))"
proof (intro conjI impI)
  show "get_vehicle_positions s = Inl NoVehicleData \<longleftrightarrow> vehicle_positions s = []"
    by (simp add: get_vehicle_positions_def)
next
  assume "only_failed_refreshes s"
  then show "get_vehicle_positions s = Inl NoVehicleData" "last_updated s = None"
    by (simp_all add: get_vehicle_positions_def only_failed_refreshes_empty)
next
  assume ok: "outcome (fetch_and_process_data w s) = None"
  from successful_run_final [OF ok] show "last_updated (final_store s (fetch_and_process_data w s)) \<noteq> None"
    by auto
  let ?f = "final_store s (fetch_and_process_data w s)"
  from successful_run_final [OF ok] obtain feed where
    f: "load_feed (world_after (fetch_and_process_data w s)) VEHICLE_POSITIONS_FILE = Inr feed"
    and l: "length (vehicle_positions ?f) = length (filter (\<lambda>e. fe_vehicle e \<noteq> None) feed)"
    by blast
  have "vehicle_positions ?f = [] \<longleftrightarrow> filter (\<lambda>e. fe_vehicle e \<noteq> None) feed = []"
    using l by (metis length_0_conv)
  then have "vehicle_positions ?f = [] \<longleftrightarrow> (\<forall>e \<in> set feed. fe_vehicle e = None)"
    by (simp add: filter_empty_conv)
  with f show "\<exists>feed. load_feed (world_after (fetch_and_process_data w s)) VEHICLE_POSITIONS_FILE = Inr feed \<and>
         get_vehicle_positions ?f =
           (if \<forall>e \<in> set feed. fe_vehicle e = None then Inl NoVehicleData
            else Inr (vehicle_positions ?f))"
    by (auto simp: get_vehicle_positions_def)
qed

theorem read_fails_iff_no_vehicles_witness:
  "only_failed_refreshes initial_store \<and>
   outcome (fetch_and_process_data example_world initial_store) = None \<and>
   get_vehicle_positions initial_store = Inl NoVehicleData \<and>
   last_updated initial_store = None \<and>
   load_feed (world_after (fetch_and_process_data example_world initial_store))
     VEHICLE_POSITIONS_FILE = Inr example_vehicle_feed \<and>
   get_vehicle_positions example_store = Inr (vehicle_positions example_store)"
proof -
  have h1: "only_failed_refreshes initial_store" by (rule only_failed_refreshes.start)
  have v: "\<not> (\<forall>e \<in> set example_vehicle_feed. fe_vehicle e = None)"
    by (simp add: example_vehicle_feed_def example_vehicle_def)
  from read_fails_iff_no_vehicles [of initial_store example_world] h1 example_run_succeeds example_load_feed v
  show ?thesis
    by (auto simp: example_store_def)
qed

subsection \<open>The installed vehicle list\<close>

lemma make_vehicle_data_cong:
  "trip_delays s = trip_delays s' \<Longrightarrow> trip_shape_map s = trip_shape_map s' \<Longrightarrow>
   shapes_dict s = shapes_dict s' \<Longrightarrow> make_vehicle_data s v = make_vehicle_data s' v"
  by (simp add: make_vehicle_data_def Let_def split: option.splits)

lemma fuse_vehicles_cong:
  "trip_delays s = trip_delays s' \<Longrightarrow> trip_shape_map s = trip_shape_map s' \<Longrightarrow>
   shapes_dict s = shapes_dict s' \<Longrightarrow> fuse_vehicles s feed cur = fuse_vehicles s' feed cur"
  by (simp add: fuse_vehicles_append make_vehicle_data_cong [of s s'])

text \<open>
  Claim C9. In every value the store takes during a run, \<open>vehicle_positions\<close> is
  either the list from before the run or the complete output of the fusion loop over
  the vehicle feed of this run, one record per entity with a vehicle payload: the list
  is built in a local variable and assigned once.
\<close>

theorem vehicle_list_old_or_complete:
  assumes "s \<in> set (store_trace (fetch_and_process_data w s0))"
  shows "vehicle_positions s = vehicle_positions s0 \<or>
         (\<exists>feed. load_feed (world_after (fetch_and_process_data w s0)) VEHICLE_POSITIONS_FILE = Inr feed \<and>
            vehicle_positions s = fuse_vehicles s feed [] \<and>
            length (vehicle_positions s) = length (filter (\<lambda>e. fe_vehicle e \<noteq> None) feed))"
proof (cases rule: run_cases [of w s0])
  case (early e)
  with assms show ?thesis by simp
next
  case (trip_map e d tr)
  with assms show ?thesis by auto
next
  case (feeds e d tr m)
  with assms show ?thesis by auto
next
  case (success d tr m vf tf)
  let ?s4 = "s0\<lparr>shapes_dict := d, trips := tr, trip_shape_map := m, trip_delays := build_trip_delays tf\<rparr>"
  have "vehicle_positions s = vehicle_positions s0 \<or> vehicle_positions s = fuse_vehicles ?s4 vf []
      \<and> trip_delays s = trip_delays ?s4 \<and> trip_shape_map s = trip_shape_map ?s4 \<and> shapes_dict s = shapes_dict ?s4"
    using assms success(6) by auto
  then show ?thesis
  proof
    assume "vehicle_positions s = vehicle_positions s0" then show ?thesis ..
  next
    assume a: "vehicle_positions s = fuse_vehicles ?s4 vf []
      \<and> trip_delays s = trip_delays ?s4 \<and> trip_shape_map s = trip_shape_map ?s4 \<and> shapes_dict s = shapes_dict ?s4"
    then have "fuse_vehicles ?s4 vf [] = fuse_vehicles s vf []"
      by (intro fuse_vehicles_cong) simp_all
    with a success(4) show ?thesis
      by (simp add: length_fuse_vehicles)
  qed
qed

theorem vehicle_list_old_or_complete_witness:
  "example_store \<in> set (store_trace (fetch_and_process_data example_world initial_store)) \<and>
   load_feed (world_after (fetch_and_process_data example_world initial_store))
     VEHICLE_POSITIONS_FILE = Inr example_vehicle_feed \<and>
   vehicle_positions example_store = fuse_vehicles example_store example_vehicle_feed [] \<and>
   length (vehicle_positions example_store) = 3"
proof -
  have n: "length (vehicle_positions example_store) = 3"
    using arg_cong [OF example_store_vehicles, of length] by simp
  have i: "vehicle_positions initial_store = []"
    by (simp add: initial_store_def)
  from vehicle_list_old_or_complete [OF example_store_in_trace] n i example_load_feed example_store_in_trace
  show ?thesis by auto
qed

subsection \<open>The installed shape index\<close>

text \<open>
  Claim C6. In every value the store takes during a run, each list of \<open>shapes_dict\<close>
  has non-decreasing sequence numbers.
\<close>

theorem shape_points_sorted:
  assumes "s \<in> set (store_trace (fetch_and_process_data w s0))"
    and "shapes_dict s sid = Some pts"
  shows "sorted (map seq pts)"
proof (cases rule: run_cases [of w s0])
  case (early e)
  with assms show ?thesis by simp
next
  case (trip_map e d tr)
  with assms have "d sid = Some pts" by auto
  with trip_map(3) show ?thesis by (rule load_static_sorted)
next
  case (feeds e d tr m)
  with assms have "d sid = Some pts" by auto
  with feeds(3) show ?thesis by (rule load_static_sorted)
next
  case (success d tr m vf tf)
  with assms have "d sid = Some pts" by auto
  with success(3) show ?thesis by (rule load_static_sorted)
qed

theorem shape_points_sorted_witness:
  "example_store \<in> set (store_trace (fetch_and_process_data example_world initial_store)) \<and>
   shapes_dict example_store (Some ''S1'') =
     Some [\<lparr>lat = 52.4, lon = 16.9, seq = 1\<rparr>, \<lparr>lat = 52.4, lon = 16.9, seq = 2\<rparr>] \<and>
   sorted (map seq [\<lparr>lat = 52.4, lon = 16.9, seq = 1\<rparr>, \<lparr>lat = 52.4, lon = 16.9, seq = 2\<rparr>])"
  using shape_points_sorted [OF example_store_in_trace example_store_shapes(1)]
    example_store_in_trace example_store_shapes(1)
  by simp

subsection \<open>The fetcher\<close>

lemma fetch_file_due:
  "fetch_file url p a w = (if spec_refetch_due w p a then download url p w else (None, w))"
  by (auto simp: fetch_file_def spec_refetch_due_def split: option.splits)

lemma download_requested: "requested (snd (download url p w)) = requested w @ [url]"
  by (simp add: download_def Let_def split: option.splits)

lemma download_ok:
  "download url p w = (None, w1) \<Longrightarrow>
     \<exists>body. http_get w url = Some body \<and>
       w1 = w\<lparr>requested := requested w @ [url],
              files := (files w)(p \<mapsto> \<lparr>mtime = clock w, content = body\<rparr>)\<rparr>"
  by (auto simp: download_def Let_def split: option.splits)

lemma download_files_changed:
  "files (snd (download url p w)) \<noteq> files w \<Longrightarrow> fst (download url p w) = None"
  by (auto simp: download_def Let_def split: option.splits)

lemma example_world_fetched_eq:
  "fetch_file VEHICLE_POSITIONS_URL VEHICLE_POSITIONS_FILE 10 example_world =
     (None, example_world_fetched)"
  by (simp add: example_world_fetched_def fetch_file_def download_def example_world_def Let_def)

lemma example_world_fetched_fresh:
  "spec_refetch_due (advance 5 example_world_fetched) VEHICLE_POSITIONS_FILE 10 = False"
  "spec_refetch_due example_world VEHICLE_POSITIONS_FILE 10"
  "files example_world_fetched VEHICLE_POSITIONS_FILE = Some \<lparr>mtime = 1000, content = ''V''\<rparr>"
  "files example_world VEHICLE_POSITIONS_FILE = None"
  "requested example_world = []"
  by (simp_all add: example_world_fetched_def fetch_file_def download_def example_world_def
      Let_def spec_refetch_due_def advance_def)

text \<open>
  Claim C7. \<open>fetch_file\<close> changes the cache only when the file is absent or at least
  \<open>max_age\<close> old; otherwise the call returns the world as it was. When it is due, it
  makes one request. Hence two calls for the same path, the second less than
  \<open>max_age\<close> after the first and the first returning normally, make at most one request
  together, and exactly one when the file was absent or stale at the first call: the
  second call is then a no-op.
\<close>

theorem fetch_file_caches:
  "(files (snd (fetch_file url p a w)) \<noteq> files w \<longrightarrow> spec_refetch_due w p a) \<and>
   (\<not> spec_refetch_due w p a \<longrightarrow> fetch_file url p a w = (None, w)) \<and>
   (spec_refetch_due w p a \<longrightarrow>
      requested (snd (fetch_file url p a w)) = requested w @ [url]) \<and>
   (fetch_file url p a w = (None, w1) \<and> 0 \<le> d \<and> d < real_of_int a \<and>
    fetch_file url p a (advance d w1) = (r2, w2) \<longrightarrow>
      length (requested w2) \<le> length (requested w) + 1 \<and>
      (spec_refetch_due w p a \<longrightarrow>
         requested w2 = requested w @ [url] \<and> r2 = None \<and> w2 = advance d w1))"
proof (intro conjI impI)
  assume "files (snd (fetch_file url p a w)) \<noteq> files w"
  then show "spec_refetch_due w p a"
    by (auto simp: fetch_file_due split: if_splits)
next
  assume "\<not> spec_refetch_due w p a"
  then show "fetch_file url p a w = (None, w)" by (simp add: fetch_file_due)
next
  assume "spec_refetch_due w p a"
  then show "requested (snd (fetch_file url p a w)) = requested w @ [url]"
    by (simp add: fetch_file_due download_requested)
next
  assume a: "fetch_file url p a w = (None, w1) \<and> 0 \<le> d \<and> d < real_of_int a \<and>
    fetch_file url p a (advance d w1) = (r2, w2)"
  show "length (requested w2) \<le> length (requested w) + 1"
  proof (cases "spec_refetch_due w p a")
    case True
    with a have "download url p w = (None, w1)" by (simp add: fetch_file_due)
    from download_ok [OF this] a show ?thesis
      by (auto simp: fetch_file_due spec_refetch_due_def advance_def)
  next
    case False
    with a have "w1 = w" by (simp add: fetch_file_due)
    with a have "w2 = advance d w \<or> w2 = snd (download url p (advance d w))"
      by (auto simp: fetch_file_due split: if_splits)
    then show ?thesis
      by (auto simp: download_requested advance_def)
  qed
next
  assume a: "fetch_file url p a w = (None, w1) \<and> 0 \<le> d \<and> d < real_of_int a \<and>
    fetch_file url p a (advance d w1) = (r2, w2)"
    and due: "spec_refetch_due w p a"
  from a due have "download url p w = (None, w1)" by (simp add: fetch_file_due)
  from download_ok [OF this] a
  have "\<not> spec_refetch_due (advance d w1) p a \<and> requested w1 = requested w @ [url]"
    by (auto simp: spec_refetch_due_def advance_def)
  with a show "requested w2 = requested w @ [url]" "r2 = None" "w2 = advance d w1"
    by (auto simp: fetch_file_due advance_def)
qed

theorem fetch_file_caches_witness:
  "spec_refetch_due example_world VEHICLE_POSITIONS_FILE 10 \<and>
   fetch_file VEHICLE_POSITIONS_URL VEHICLE_POSITIONS_FILE 10 example_world =
     (None, example_world_fetched) \<and>
   (0::real) \<le> 5 \<and> (5::real) < real_of_int 10 \<and>
   spec_refetch_due (advance 5 example_world_fetched) VEHICLE_POSITIONS_FILE 10 = False \<and>
   fetch_file VEHICLE_POSITIONS_URL VEHICLE_POSITIONS_FILE 10 (advance 5 example_world_fetched) =
     (None, advance 5 example_world_fetched) \<and>
   requested (advance 5 example_world_fetched) = [VEHICLE_POSITIONS_URL]"
proof -
  have second: "fetch_file VEHICLE_POSITIONS_URL VEHICLE_POSITIONS_FILE 10
      (advance 5 example_world_fetched) = (None, advance 5 example_world_fetched)"
    using fetch_file_caches [of VEHICLE_POSITIONS_URL VEHICLE_POSITIONS_FILE 10 "advance 5 example_world_fetched"]
      example_world_fetched_fresh(1) by simp
  from fetch_file_caches [of VEHICLE_POSITIONS_URL VEHICLE_POSITIONS_FILE 10 example_world
      example_world_fetched 5 None "advance 5 example_world_fetched"]
    example_world_fetched_eq second example_world_fetched_fresh
  show ?thesis by simp
qed

subsection \<open>The corrupt archive\<close>















end
